theory Spec2Isabelle
  imports Main
begin

section \<open>Data model of the chat page (src/src/App.tsx, lines 13-40)\<close>

text \<open>
  The page is one React function component, \<^verbatim>\<open>App\<close>. Its state lives in five
  \<^verbatim>\<open>useState\<close> cells and in two browser stores: \<^verbatim>\<open>localStorage\<close> (the
  persisted conversation) and \<^verbatim>\<open>sessionStorage\<close> (the load guard). The model
  runtime (\<^verbatim>\<open>@mlc-ai/web-llm\<close>) is an external collaborator: the model records
  every call that reaches it and takes the outcome of each awaited call as an input.
\<close>

datatype role = Assistant | User | System | Tool

text \<open>\<^verbatim>\<open>type Message = { id, role, content, sentAt }\<close>; the field \<^verbatim>\<open>id\<close> is
  written \<open>id'\<close> here.\<close>

record message =
  id' :: string
  role :: role
  content :: string
  sentAt :: string

text \<open>An entry of a completion request, \<^verbatim>\<open>{ role, content }\<close>.\<close>

type_synonym chat_param = "role \<times> string"

text \<open>\<^verbatim>\<open>choice.message\<close> of a completion reply: the content may be \<^verbatim>\<open>null\<close>.\<close>

record choice =
  choice_role :: role
  choice_content :: "string option"

text \<open>The loaded engine is opaque to the page; a handle number stands for it.\<close>

datatype engine = MLCEngine nat

definition modelId :: string where
  "modelId = ''TinyLlama-1.1B-Chat-v0.4-q4f16_1-MLC''"

definition loadEngineProgressKey :: string where
  "loadEngineProgressKey = ''hello-webllm.locals.loading-engine''"

definition messagesRepoKey :: string where
  "messagesRepoKey = ''hello-webllm.locals.messages-repo''"

text \<open>
  \<^verbatim>\<open>localStorage\<close> holds strings. The page only ever passes them to
  \<^verbatim>\<open>JSON.parse\<close>, so the model keeps of each stored string what \<^verbatim>\<open>JSON.parse\<close>
  makes of it: \<open>Serialized ms\<close> is the text \<^verbatim>\<open>JSON.stringify(ms)\<close>, which parses
  back to \<open>ms\<close>; \<open>Unparsable s\<close> is a text \<open>s\<close> on which \<^verbatim>\<open>JSON.parse\<close> throws
  (the empty string among them).
\<close>

datatype stored = Serialized "message list" | Unparsable string

datatype js_error = SyntaxError

definition JSON_stringify :: "message list \<Rightarrow> stored" where
  "JSON_stringify ms = Serialized ms"

fun JSON_parse :: "stored \<Rightarrow> js_error + message list" where
  "JSON_parse (Serialized ms) = Inr ms"
| "JSON_parse (Unparsable s) = Inl SyntaxError"

text \<open>\<^verbatim>\<open>msgs || "[]"\<close>: \<^verbatim>\<open>null\<close> and the empty string are falsy.\<close>

fun or_empty_array :: "stored option \<Rightarrow> stored" where
  "or_empty_array None = Serialized []"
| "or_empty_array (Some (Unparsable [])) = Serialized []"
| "or_empty_array (Some v) = v"

text \<open>The five \<^verbatim>\<open>useState\<close> cells (lines 36-40).\<close>

record component =
  engine :: "engine option"
  engineLoadingProgress :: string
  msgInput :: string
  messages :: "message list"
  processingMsg :: bool

text \<open>Calls that reach the model runtime.\<close>

datatype call =
  CreateMLCEngine string
  | ChatCompletion engine "chat_param list"
  | DeleteModelAllInfoInCache string

text \<open>
  The world the component lives in. \<open>ui\<close> is the current value of the state cells
  (what the next render shows). \<open>console\<close> collects the \<^verbatim>\<open>console.error\<close> lines
  as (label, error) pairs. The last three fields are the asynchronous calls that are
  suspended at an \<^verbatim>\<open>await\<close>: a suspended \<^verbatim>\<open>prepareEngine\<close> keeps the render
  values its closure captured.
\<close>

record world =
  localStorage :: "string \<rightharpoonup> stored"
  sessionStorage :: "string \<rightharpoonup> string"
  ui :: component
  console :: "(string \<times> string) list"
  calls :: "call list"
  pendingLoads :: "component list"
  pendingCompletions :: nat
  pendingPurges :: nat

datatype load_outcome = Loaded engine | LoadError string

text \<open>A resolved completion carries \<^verbatim>\<open>choices[0]\<close> and the remaining choices.\<close>

datatype completion_outcome = Reply choice "choice list" | CompletionError string

datatype purge_outcome = Purged | PurgeError string

section \<open>State setters and the persistence effect (lines 36-50)\<close>

definition setEngine :: "engine option \<Rightarrow> world \<Rightarrow> world" where
  "setEngine e w = w\<lparr>ui := (ui w)\<lparr>engine := e\<rparr>\<rparr>"

definition setEngineLoadingProgress :: "string \<Rightarrow> world \<Rightarrow> world" where
  "setEngineLoadingProgress s w = w\<lparr>ui := (ui w)\<lparr>engineLoadingProgress := s\<rparr>\<rparr>"

definition setMsgInput :: "string \<Rightarrow> world \<Rightarrow> world" where
  "setMsgInput s w = w\<lparr>ui := (ui w)\<lparr>msgInput := s\<rparr>\<rparr>"

definition setProcessingMsg :: "bool \<Rightarrow> world \<Rightarrow> world" where
  "setProcessingMsg b w = w\<lparr>ui := (ui w)\<lparr>processingMsg := b\<rparr>\<rparr>"

text \<open>
  The effect of lines 47-50, run by React after a render in which \<^verbatim>\<open>messages\<close>
  changed:
  \<^verbatim>\<open>if (messages.length < 1) return;
  localStorage.setItem(messagesRepoKey, JSON.stringify(messages));\<close>
\<close>

definition saveMessages :: "message list \<Rightarrow> world \<Rightarrow> world" where
  "saveMessages ms w =
     (if length ms < 1 then w
      else w\<lparr>localStorage := (localStorage w)(messagesRepoKey \<mapsto> JSON_stringify ms)\<rparr>)"

text \<open>
  \<^verbatim>\<open>setMessages\<close> with an updater: the cell takes the new value and the
  persistence effect runs on it. (\<^verbatim>\<open>setMessages(v)\<close> is the updater \<open>\<lambda>_. v\<close>.)
\<close>

definition setMessages :: "(message list \<Rightarrow> message list) \<Rightarrow> world \<Rightarrow> world" where
  "setMessages f w =
     (let ms = f (messages (ui w))
      in saveMessages ms (w\<lparr>ui := (ui w)\<lparr>messages := ms\<rparr>\<rparr>))"

definition console_error :: "string \<Rightarrow> string \<Rightarrow> world \<Rightarrow> world" where
  "console_error label err w = w\<lparr>console := console w @ [(label, err)]\<rparr>"

section \<open>The turn processor: processMsg (lines 97-128)\<close>

definition systemPrompt :: chat_param where
  "systemPrompt = (System, ''You are a helpful AI assistant.'')"

definition fallbackContent :: string where
  "fallbackContent = ''Unable to prduce response!''"

text \<open>\<^verbatim>\<open>choice.message.content || "Unable to prduce response!"\<close>\<close>

fun content_or_fallback :: "string option \<Rightarrow> string" where
  "content_or_fallback None = fallbackContent"
| "content_or_fallback (Some []) = fallbackContent"
| "content_or_fallback (Some s) = s"

text \<open>
  Lines 97-109, up to the \<^verbatim>\<open>await\<close>. \<open>env\<close> is the render whose closure the
  function belongs to: \<^verbatim>\<open>engine\<close> is that render's constant, not the current cell.
  (\<^verbatim>\<open>scrollDown\<close> only moves the view and is left out.)
\<close>

definition processMsg_begin :: "component \<Rightarrow> message list \<Rightarrow> world \<Rightarrow> world" where
  "processMsg_begin env msgList w =
     (case engine env of
        None \<Rightarrow> w
      | Some e \<Rightarrow>
          (let w1 = setProcessingMsg True w;
               prompt = systemPrompt # map (\<lambda>m. (role m, content m)) msgList
           in w1\<lparr>calls := calls w1 @ [ChatCompletion e prompt],
                 pendingCompletions := Suc (pendingCompletions w1)\<rparr>))"

text \<open>
  Lines 110-127, after the \<^verbatim>\<open>await\<close>: \<open>newId\<close> is what \<^verbatim>\<open>v4()\<close> returns and
  \<open>now\<close> what \<^verbatim>\<open>new Date().toISOString()\<close> returns.
\<close>

definition processMsg_resume :: "completion_outcome \<Rightarrow> string \<Rightarrow> string \<Rightarrow> world \<Rightarrow> world" where
  "processMsg_resume outcome newId now w =
     (let w1 =
        (case outcome of
           Reply c cs \<Rightarrow>
             setMessages (\<lambda>p. p @ [\<lparr>id' = newId, role = choice_role c,
                                      content = content_or_fallback (choice_content c),
                                      sentAt = now\<rparr>]) w
         | CompletionError err \<Rightarrow> console_error ''unable to process message:'' err w)
      in setProcessingMsg False w1)"

text \<open>The whole call, given how the awaited completion settles.\<close>

definition processMsg ::
  "component \<Rightarrow> message list \<Rightarrow> completion_outcome \<Rightarrow> string \<Rightarrow> string \<Rightarrow> world \<Rightarrow> world" where
  "processMsg env msgList outcome newId now w =
     (case engine env of
        None \<Rightarrow> w
      | Some e \<Rightarrow>
          (let w1 = processMsg_begin env msgList w
           in processMsg_resume outcome newId now
                (w1\<lparr>pendingCompletions := pendingCompletions w1 - 1\<rparr>)))"

section \<open>Form submission: sendMsg (lines 130-144)\<close>

definition sendMsg :: "component \<Rightarrow> string \<Rightarrow> string \<Rightarrow> world \<Rightarrow> world" where
  "sendMsg env newId now w =
     (case engine env of
        None \<Rightarrow> w
      | Some e \<Rightarrow>
          (let newMsg = \<lparr>id' = newId, role = User, content = msgInput env, sentAt = now\<rparr>;
               w1 = setMsgInput [] w;
               newMsgList = messages env @ [newMsg];
               w2 = setMessages (\<lambda>_. newMsgList) w1
           in processMsg_begin env newMsgList w2))"

section \<open>Engine loading and replay: prepareEngine (lines 52-84)\<close>

text \<open>\<^verbatim>\<open>parsedMsgs.at(-1)\<close>\<close>

definition at_last :: "'a list \<Rightarrow> 'a option" where
  "at_last xs = (if xs = [] then None else Some (last xs))"

text \<open>Lines 52-59, up to the \<^verbatim>\<open>await\<close> of \<^verbatim>\<open>CreateMLCEngine\<close>.\<close>

definition prepareEngine_begin :: "component \<Rightarrow> world \<Rightarrow> world" where
  "prepareEngine_begin env w =
     (let loadingStatus = sessionStorage w loadEngineProgressKey
      in if loadingStatus = Some ''true'' then w
         else w\<lparr>sessionStorage := (sessionStorage w)(loadEngineProgressKey \<mapsto> ''true''),
                calls := calls w @ [CreateMLCEngine modelId],
                pendingLoads := pendingLoads w @ [env]\<rparr>)"

text \<open>
  Lines 71-82, the inner block of the outer \<^verbatim>\<open>finally\<close>: read the persisted log,
  publish it, and resubmit it when its last entry is a user turn. The call of
  \<^verbatim>\<open>processMsg\<close> is the one of the closure \<open>env\<close>.
\<close>

definition replay :: "component \<Rightarrow> world \<Rightarrow> world" where
  "replay env w =
     (let msgs = localStorage w messagesRepoKey
      in case JSON_parse (or_empty_array msgs) of
           Inl err \<Rightarrow> w
         | Inr parsedMsgs \<Rightarrow>
             (let w1 = setMessages (\<lambda>_. parsedMsgs) w
              in if length parsedMsgs > 0 \<and> map_option role (at_last parsedMsgs) = Some User
                 then processMsg_begin env parsedMsgs w1
                 else w1))"

text \<open>Lines 65-70: what the \<^verbatim>\<open>try\<close>/\<^verbatim>\<open>catch\<close> does with the settled load, and
  the first statement of \<^verbatim>\<open>finally\<close>.\<close>

definition load_settled :: "load_outcome \<Rightarrow> world \<Rightarrow> world" where
  "load_settled outcome w =
     (let w1 =
        (case outcome of
           Loaded e \<Rightarrow> setEngineLoadingProgress [] (setEngine (Some e) w)
         | LoadError err \<Rightarrow> console_error ''unable to fully load the model:'' err w)
      in w1\<lparr>sessionStorage := (sessionStorage w1)(loadEngineProgressKey := None)\<rparr>)"

text \<open>Lines 59-83, after the \<^verbatim>\<open>await\<close>.\<close>

definition prepareEngine_resume :: "component \<Rightarrow> load_outcome \<Rightarrow> world \<Rightarrow> world" where
  "prepareEngine_resume env outcome w = replay env (load_settled outcome w)"

section \<open>Reset: clearStorage (lines 86-95)\<close>

definition clearStorage_begin :: "world \<Rightarrow> world" where
  "clearStorage_begin w =
     w\<lparr>calls := calls w @ [DeleteModelAllInfoInCache modelId],
       pendingPurges := Suc (pendingPurges w)\<rparr>"

text \<open>Lines 88-94, after the \<^verbatim>\<open>await\<close>.\<close>

definition clearStorage_resume :: "world \<Rightarrow> world" where
  "clearStorage_resume w =
     (let w1 = w\<lparr>localStorage := (localStorage w)(messagesRepoKey := None)\<rparr>;
          w2 = w1\<lparr>sessionStorage := (sessionStorage w1)(loadEngineProgressKey := None)\<rparr>;
          w3 = setEngineLoadingProgress [] w2;
          w4 = setMessages (\<lambda>_. []) w3;
          w5 = setProcessingMsg False w4;
          w6 = setMsgInput [] w5
      in setEngine None w6)"

text \<open>
  The whole call. When the purge rejects, \<^verbatim>\<open>clearStorage\<close> rejects with the same
  error before any of lines 88-94 ran (\<open>Inl\<close>).
\<close>

definition clearStorage :: "purge_outcome \<Rightarrow> world \<Rightarrow> string + world" where
  "clearStorage outcome w =
     (let w1 = clearStorage_begin w;
          w2 = w1\<lparr>pendingPurges := pendingPurges w1 - 1\<rparr>
      in case outcome of
           PurgeError err \<Rightarrow> Inl err
         | Purged \<Rightarrow> Inr (clearStorage_resume w2))"

section \<open>What is rendered (lines 156-186, 296-298)\<close>

datatype screen = PrepareModel | DownloadingModel | Chat

definition render :: "world \<Rightarrow> screen" where
  "render w =
     (if engine (ui w) = None
      then (if engineLoadingProgress (ui w) \<noteq> [] then DownloadingModel else PrepareModel)
      else Chat)"

text \<open>\<^verbatim>\<open>load()\<close> of the conversation store: lines 71 and 73.\<close>

definition loadMessages :: "world \<Rightarrow> js_error + message list" where
  "loadMessages w = JSON_parse (or_empty_array (localStorage w messagesRepoKey))"

section \<open>The page as a transition system\<close>

text \<open>
  Everything runs on one thread. An event is a click or a form submission, handled by
  the closure of the current render, or the settling of a call a suspended function
  awaits.
\<close>

datatype event =
  ClickStart
  | LoadProgress string
  | LoadSettled load_outcome
  | TypeInput string
  | SubmitForm string string
  | CompletionSettled completion_outcome string string
  | ClickDelete
  | PurgeSettled purge_outcome

fun step :: "world \<Rightarrow> event \<Rightarrow> world" where
  "step w ClickStart = prepareEngine_begin (ui w) w"
| "step w (LoadProgress report) =
     (if pendingLoads w = [] then w else setEngineLoadingProgress report w)"
| "step w (LoadSettled outcome) =
     (case pendingLoads w of
        [] \<Rightarrow> w
      | env # rest \<Rightarrow> prepareEngine_resume env outcome (w\<lparr>pendingLoads := rest\<rparr>))"
| "step w (TypeInput s) = setMsgInput s w"
| "step w (SubmitForm newId now) = sendMsg (ui w) newId now w"
| "step w (CompletionSettled outcome newId now) =
     (if pendingCompletions w = 0 then w
      else processMsg_resume outcome newId now
             (w\<lparr>pendingCompletions := pendingCompletions w - 1\<rparr>))"
| "step w ClickDelete = clearStorage_begin w"
| "step w (PurgeSettled outcome) =
     (if pendingPurges w = 0 then w
      else (let w1 = w\<lparr>pendingPurges := pendingPurges w - 1\<rparr>
            in case outcome of Purged \<Rightarrow> clearStorage_resume w1 | PurgeError err \<Rightarrow> w1))"

definition run :: "world \<Rightarrow> event list \<Rightarrow> world" where
  "run w evs = foldl step w evs"

text \<open>
  A page load: \<^verbatim>\<open>localStorage\<close> and \<^verbatim>\<open>sessionStorage\<close> are what the browser kept,
  line 33 removes the guard, and the state cells take their initial values.
\<close>

definition boot :: "(string \<rightharpoonup> stored) \<Rightarrow> (string \<rightharpoonup> string) \<Rightarrow> world" where
  "boot ls ss =
     \<lparr>localStorage = ls,
      sessionStorage = ss(loadEngineProgressKey := None),
      ui = \<lparr>engine = None, engineLoadingProgress = [], msgInput = [],
            messages = [], processingMsg = False\<rparr>,
      console = [], calls = [], pendingLoads = [],
      pendingCompletions = 0, pendingPurges = 0\<rparr>"

text \<open>
  Which events the rendered page and the pending calls allow: the Start button is on
  the first screen only, the Delete button and the form on the chat screen, the form's
  controls are disabled while \<^verbatim>\<open>processingMsg\<close> and its input is \<^verbatim>\<open>required\<close>.
\<close>

fun enabled :: "world \<Rightarrow> event \<Rightarrow> bool" where
  "enabled w ClickStart = (render w = PrepareModel)"
| "enabled w (LoadProgress report) = (pendingLoads w \<noteq> [])"
| "enabled w (LoadSettled outcome) = (pendingLoads w \<noteq> [])"
| "enabled w (TypeInput s) = (render w = Chat \<and> \<not> processingMsg (ui w))"
| "enabled w (SubmitForm newId now) =
     (render w = Chat \<and> \<not> processingMsg (ui w) \<and> msgInput (ui w) \<noteq> [])"
| "enabled w (CompletionSettled outcome newId now) = (pendingCompletions w \<noteq> 0)"
| "enabled w ClickDelete = (render w = Chat)"
| "enabled w (PurgeSettled outcome) = (pendingPurges w \<noteq> 0)"

fun feasible :: "world \<Rightarrow> event list \<Rightarrow> bool" where
  "feasible w [] = True"
| "feasible w (ev # evs) = (enabled w ev \<and> feasible (step w ev) evs)"

section \<open>Sequences of turn-processor calls\<close>

text \<open>
  A turn is started by a call of \<^verbatim>\<open>processMsg\<close> from some closure, or by a form
  submission (the closure of the current render); a pending completion settles later.
\<close>

datatype turn =
  Process component "message list"
  | Settle completion_outcome string string
  | Submit string string

fun turn_step :: "world \<Rightarrow> turn \<Rightarrow> world" where
  "turn_step w (Process env msgList) = processMsg_begin env msgList w"
| "turn_step w (Settle outcome newId now) = step w (CompletionSettled outcome newId now)"
| "turn_step w (Submit newId now) = step w (SubmitForm newId now)"

section \<open>Executions in which no reset completes during a load\<close>

fun calm :: "world \<Rightarrow> event list \<Rightarrow> bool" where
  "calm w [] = True"
| "calm w (ev # evs) =
     ((case ev of
         PurgeSettled Purged \<Rightarrow> pendingPurges w = 0 \<or> pendingLoads w = []
       | _ \<Rightarrow> True)
      \<and> calm (step w ev) evs)"

section \<open>The load guard as an invariant\<close>

text \<open>
  The guard in \<^verbatim>\<open>sessionStorage\<close> is set exactly while one call of
  \<^verbatim>\<open>prepareEngine\<close> is suspended at its \<^verbatim>\<open>await\<close>, and no more than one is.
\<close>

definition guard_inv :: "world \<Rightarrow> bool" where
  "guard_inv w =
     ((sessionStorage w loadEngineProgressKey = Some ''true'') = (pendingLoads w \<noteq> [])
      \<and> length (pendingLoads w) \<le> 1)"

section \<open>Sample values\<close>

definition msg_hi :: message where
  "msg_hi = \<lparr>id' = ''m1'', role = User, content = ''hi'', sentAt = ''2024-05-01T10:00:00.000Z''\<rparr>"

definition msg_hello :: message where
  "msg_hello = \<lparr>id' = ''m2'', role = Assistant, content = ''Hello!'',
                 sentAt = ''2024-05-01T10:00:05.000Z''\<rparr>"

definition store_hi :: "string \<rightharpoonup> stored" where
  "store_hi = [messagesRepoKey \<mapsto> Serialized [msg_hi]]"

definition unloaded_ui :: component where
  "unloaded_ui = \<lparr>engine = None, engineLoadingProgress = [], msgInput = ''hi'',
                   messages = [], processingMsg = False\<rparr>"

definition ready_ui :: component where
  "ready_ui = \<lparr>engine = Some (MLCEngine 1), engineLoadingProgress = [], msgInput = ''hi'',
                messages = [msg_hi, msg_hello], processingMsg = False\<rparr>"

definition ready_world :: world where
  "ready_world =
     \<lparr>localStorage = [messagesRepoKey \<mapsto> Serialized [msg_hi, msg_hello]],
      sessionStorage = Map.empty,
      ui = ready_ui,
      console = [], calls = [CreateMLCEngine modelId], pendingLoads = [],
      pendingCompletions = 0, pendingPurges = 0\<rparr>"

text \<open>\<open>ready_world\<close> after a reset.\<close>

definition reset_world :: world where
  "reset_world =
     \<lparr>localStorage = Map.empty,
      sessionStorage = Map.empty,
      ui = \<lparr>engine = None, engineLoadingProgress = [], msgInput = [],
            messages = [], processingMsg = False\<rparr>,
      console = [],
      calls = [CreateMLCEngine modelId, DeleteModelAllInfoInCache modelId],
      pendingLoads = [], pendingCompletions = 0, pendingPurges = 0\<rparr>"

text \<open>
  A page on which the Delete button is clicked twice in a row: the first reset
  completes, Start is clicked, and the second reset completes while that load is still
  in flight.
\<close>

definition double_delete :: "event list" where
  "double_delete =
     [ClickStart, LoadSettled (Loaded (MLCEngine 1)), ClickDelete, ClickDelete,
      PurgeSettled Purged, ClickStart, PurgeSettled Purged]"

section \<open>Basic facts about the setters and the phases\<close>

lemmas setters =
  setEngine_def setEngineLoadingProgress_def setMsgInput_def setProcessingMsg_def
  setMessages_def saveMessages_def console_error_def

lemmas phases =
  run_def boot_def prepareEngine_begin_def prepareEngine_resume_def replay_def
  load_settled_def processMsg_begin_def at_last_def render_def JSON_stringify_def
  clearStorage_begin_def clearStorage_resume_def Let_def

lemma content_or_fallback_eq:
  "content_or_fallback x =
     (case x of None \<Rightarrow> fallbackContent | Some s \<Rightarrow> if s = [] then fallbackContent else s)"
  by (cases x rule: content_or_fallback.cases) simp_all

lemma messages_setMessages [simp]: "messages (ui (setMessages f w)) = f (messages (ui w))"
  by (simp add: setters Let_def)

lemma messages_processMsg_begin [simp]:
  "messages (ui (processMsg_begin env msgList w)) = messages (ui w)"
  by (simp add: processMsg_begin_def setters Let_def split: option.splits)

lemma messages_processMsg_resume_error [simp]:
  "messages (ui (processMsg_resume (CompletionError err) newId now w)) = messages (ui w)"
  by (simp add: processMsg_resume_def setters)

lemma messages_processMsg_resume_reply [simp]:
  "messages (ui (processMsg_resume (Reply c cs) newId now w)) =
     messages (ui w) @ [\<lparr>id' = newId, role = choice_role c,
                          content = content_or_fallback (choice_content c), sentAt = now\<rparr>]"
  by (simp add: processMsg_resume_def setProcessingMsg_def Let_def)

text \<open>Only \<^verbatim>\<open>prepareEngine\<close> and \<^verbatim>\<open>clearStorage\<close> touch the guard and the loads
  in flight.\<close>

lemma session_setMessages [simp]: "sessionStorage (setMessages f w) = sessionStorage w"
  by (simp add: setters Let_def)

lemma pendingLoads_setMessages [simp]: "pendingLoads (setMessages f w) = pendingLoads w"
  by (simp add: setters Let_def)

lemma session_processMsg_begin [simp]:
  "sessionStorage (processMsg_begin env msgList w) = sessionStorage w"
  by (simp add: processMsg_begin_def setters Let_def split: option.splits)

lemma pendingLoads_processMsg_begin [simp]:
  "pendingLoads (processMsg_begin env msgList w) = pendingLoads w"
  by (simp add: processMsg_begin_def setters Let_def split: option.splits)

lemma session_processMsg_resume [simp]:
  "sessionStorage (processMsg_resume outcome newId now w) = sessionStorage w"
  by (simp add: processMsg_resume_def setters Let_def split: completion_outcome.splits)

lemma pendingLoads_processMsg_resume [simp]:
  "pendingLoads (processMsg_resume outcome newId now w) = pendingLoads w"
  by (simp add: processMsg_resume_def setters Let_def split: completion_outcome.splits)

lemma session_replay [simp]: "sessionStorage (replay env w) = sessionStorage w"
  by (simp add: replay_def Let_def split: sum.splits)

lemma pendingLoads_replay [simp]: "pendingLoads (replay env w) = pendingLoads w"
  by (simp add: replay_def Let_def split: sum.splits)

lemma session_load_settled [simp]:
  "sessionStorage (load_settled outcome w) = (sessionStorage w)(loadEngineProgressKey := None)"
  by (simp add: load_settled_def setters Let_def split: load_outcome.splits)

lemma pendingLoads_load_settled [simp]:
  "pendingLoads (load_settled outcome w) = pendingLoads w"
  by (simp add: load_settled_def setters Let_def split: load_outcome.splits)

lemma localStorage_load_settled [simp]:
  "localStorage (load_settled outcome w) = localStorage w"
  by (simp add: load_settled_def setters Let_def split: load_outcome.splits)

lemma session_sendMsg [simp]: "sessionStorage (sendMsg env newId now w) = sessionStorage w"
  by (simp add: sendMsg_def setMsgInput_def Let_def split: option.splits)

lemma pendingLoads_sendMsg [simp]: "pendingLoads (sendMsg env newId now w) = pendingLoads w"
  by (simp add: sendMsg_def setMsgInput_def Let_def split: option.splits)

lemma session_clearStorage_resume [simp]:
  "sessionStorage (clearStorage_resume w) = (sessionStorage w)(loadEngineProgressKey := None)"
  by (simp add: clearStorage_resume_def setters Let_def)

lemma pendingLoads_clearStorage_resume [simp]:
  "pendingLoads (clearStorage_resume w) = pendingLoads w"
  by (simp add: clearStorage_resume_def setters Let_def)

lemma messages_replay:
  "loadMessages w = Inr ms \<Longrightarrow> messages (ui (replay env w)) = ms"
  by (simp add: replay_def loadMessages_def Let_def)

section \<open>The conversation store\<close>

text \<open>
  Claim C7. Saving an empty log writes nothing: the persistence effect run on \<open>[]\<close>
  returns the world as it was, so whatever was persisted under the storage key (a
  non-empty log included) is still there; the same holds when the published state is
  set to the empty log.
\<close>

theorem save_empty_writes_nothing:
  "saveMessages [] w = w
   \<and> localStorage (setMessages (\<lambda>_. []) w) = localStorage w"
  by (simp add: saveMessages_def setMessages_def)

section \<open>The turn processor\<close>

text \<open>
  Claim C5. When the completion call of a turn fails, the published log and the store
  are as before the call, the busy flag is false, and the only trace of the failure is
  one \<^verbatim>\<open>console.error\<close> line: besides the line, only the busy flag and the record
  of the request differ from the world before the call.
\<close>

theorem processMsg_completion_failure:
  "engine env = Some e \<Longrightarrow>
     (let w' = processMsg env msgList (CompletionError err) newId now w
      in messages (ui w') = messages (ui w)
         \<and> localStorage w' = localStorage w
         \<and> \<not> processingMsg (ui w')
         \<and> console w' = console w @ [(''unable to process message:'', err)]
         \<and> w' = w\<lparr>ui := (ui w)\<lparr>processingMsg := False\<rparr>,
                   console := console w @ [(''unable to process message:'', err)],
                   calls := calls w @
                     [ChatCompletion e (systemPrompt # map (\<lambda>m. (role m, content m)) msgList)]\<rparr>)"
  by (simp add: processMsg_def processMsg_begin_def processMsg_resume_def setters Let_def)

theorem processMsg_completion_failure_witness:
  "engine ready_ui = Some (MLCEngine 1)
   \<and> (let w' = processMsg ready_ui [msg_hi] (CompletionError ''out of memory'') ''m3'' ''t3''
                 ready_world
      in messages (ui w') = [msg_hi, msg_hello]
         \<and> \<not> processingMsg (ui w')
         \<and> console w' = [(''unable to process message:'', ''out of memory'')])"
  using processMsg_completion_failure
          [of ready_ui "MLCEngine 1" "[msg_hi]" "''out of memory''" "''m3''" "''t3''" ready_world]
  by (simp add: Let_def ready_ui_def ready_world_def)

text \<open>
  Claim C6. When the engine the turn processor sees is loaded, the request it submits
  is the fixed system instruction followed by the given log projected to role and
  content, and nothing is published yet; when the completion resolves, exactly one
  message is appended to the end of the published log, built from the first choice's
  role and content (the fixed placeholder when the content is absent or empty), the
  generated id and the current time, and the earlier entries stay as they were.
\<close>

theorem processMsg_request_and_reply:
  "engine env = Some e \<Longrightarrow>
     calls (processMsg_begin env msgList w) =
       calls w @ [ChatCompletion e ((System, ''You are a helpful AI assistant.'')
                                     # map (\<lambda>m. (role m, content m)) msgList)]
     \<and> messages (ui (processMsg_begin env msgList w)) = messages (ui w)
     \<and> messages (ui (processMsg_resume (Reply c cs) newId now w2)) =
         messages (ui w2) @
           [\<lparr>id' = newId, role = choice_role c,
             content = (case choice_content c of
                          None \<Rightarrow> ''Unable to prduce response!''
                        | Some s \<Rightarrow> if s = [] then ''Unable to prduce response!'' else s),
             sentAt = now\<rparr>]
     \<and> messages (ui (processMsg env msgList (Reply c cs) newId now w)) =
         messages (ui w) @
           [\<lparr>id' = newId, role = choice_role c,
             content = (case choice_content c of
                          None \<Rightarrow> ''Unable to prduce response!''
                        | Some s \<Rightarrow> if s = [] then ''Unable to prduce response!'' else s),
             sentAt = now\<rparr>]"
  by (simp add: processMsg_def processMsg_begin_def setProcessingMsg_def systemPrompt_def
        content_or_fallback_eq fallbackContent_def Let_def split: option.splits)

theorem processMsg_request_and_reply_witness:
  "engine ready_ui = Some (MLCEngine 1)
   \<and> calls (processMsg_begin ready_ui [msg_hi] ready_world) =
       [CreateMLCEngine modelId,
        ChatCompletion (MLCEngine 1) [(System, ''You are a helpful AI assistant.''), (User, ''hi'')]]
   \<and> messages (ui (processMsg ready_ui [msg_hi]
        (Reply \<lparr>choice_role = Assistant, choice_content = None\<rparr> []) ''m3'' ''t3'' ready_world)) =
       [msg_hi, msg_hello,
        \<lparr>id' = ''m3'', role = Assistant, content = ''Unable to prduce response!'', sentAt = ''t3''\<rparr>]"
  using processMsg_request_and_reply
          [of ready_ui "MLCEngine 1" "[msg_hi]" ready_world
              "\<lparr>choice_role = Assistant, choice_content = None\<rparr>" "[]" "''m3''" "''t3''"]
  by (simp add: ready_ui_def ready_world_def msg_hi_def)

subsection \<open>The published log only grows\<close>

lemma turn_step_appends: "\<exists>zs. messages (ui (turn_step w t)) = messages (ui w) @ zs"
proof (cases t)
  case (Process env msgList)
  then show ?thesis by simp
next
  case (Settle outcome newId now)
  then show ?thesis by (cases outcome) simp_all
next
  case (Submit newId now)
  then show ?thesis
    by (simp add: sendMsg_def setMsgInput_def Let_def split: option.splits)
qed

lemma turns_append: "\<exists>zs. messages (ui (foldl turn_step w ts)) = messages (ui w) @ zs"
proof (induction ts arbitrary: w)
  case Nil
  then show ?case by simp
next
  case (Cons t ts)
  obtain zs where first: "messages (ui (turn_step w t)) = messages (ui w) @ zs"
    using turn_step_appends by blast
  obtain zs' where
    "messages (ui (foldl turn_step (turn_step w t) ts)) = messages (ui (turn_step w t)) @ zs'"
    using Cons.IH by blast
  with first show ?case by simp
qed

text \<open>
  Claim C9. Over any sequence of turn-processor calls, settled completions and form
  submissions (no reset among them), the published log never gets shorter, and the log
  published before the sequence is still there afterwards, entry for entry at the same
  positions.
\<close>

theorem published_log_only_grows:
  "length (messages (ui w)) \<le> length (messages (ui (foldl turn_step w ts)))
   \<and> take (length (messages (ui w))) (messages (ui (foldl turn_step w ts))) = messages (ui w)"
proof -
  obtain zs where "messages (ui (foldl turn_step w ts)) = messages (ui w) @ zs"
    using turns_append by blast
  then show ?thesis by simp
qed

theorem published_log_only_grows_witness:
  "messages (ui (foldl turn_step ready_world
      [Submit ''m3'' ''t3'', Settle (CompletionError ''out of memory'') ''m4'' ''t4'',
       Process ready_ui [msg_hi],
       Settle (Reply \<lparr>choice_role = Assistant, choice_content = Some ''Hello!''\<rparr> []) ''m5'' ''t5'']))
     = [msg_hi, msg_hello,
        \<lparr>id' = ''m3'', role = User, content = ''hi'', sentAt = ''t3''\<rparr>,
        \<lparr>id' = ''m5'', role = Assistant, content = ''Hello!'', sentAt = ''t5''\<rparr>]
   \<and> take 2 (messages (ui (foldl turn_step ready_world
      [Submit ''m3'' ''t3'', Settle (CompletionError ''out of memory'') ''m4'' ''t4'',
       Process ready_ui [msg_hi],
       Settle (Reply \<lparr>choice_role = Assistant, choice_content = Some ''Hello!''\<rparr> []) ''m5'' ''t5''])))
     = [msg_hi, msg_hello]"
  using published_log_only_grows [of ready_world
      "[Submit ''m3'' ''t3'', Settle (CompletionError ''out of memory'') ''m4'' ''t4'',
        Process ready_ui [msg_hi],
        Settle (Reply \<lparr>choice_role = Assistant, choice_content = Some ''Hello!''\<rparr> []) ''m5'' ''t5'']"]
  by (simp add: ready_world_def ready_ui_def sendMsg_def processMsg_begin_def
        processMsg_resume_def setters Let_def)

section \<open>Form submission\<close>

text \<open>
  Claim C10. A form submission handled while the engine handle is unset changes
  nothing: no message is published, nothing is written to the store, and the pending
  input text stays as it was. This holds for the handler of any render whose engine is
  unset, and so for the submission handled by the current render.
\<close>

theorem sendMsg_without_engine_is_noop:
  "(engine env = None \<longrightarrow> sendMsg env newId now w = w)
   \<and> (engine (ui w) = None \<longrightarrow>
        step w (SubmitForm newId now) = w
        \<and> messages (ui (step w (SubmitForm newId now))) = messages (ui w)
        \<and> localStorage (step w (SubmitForm newId now)) = localStorage w
        \<and> msgInput (ui (step w (SubmitForm newId now))) = msgInput (ui w))"
  by (simp add: sendMsg_def)

theorem sendMsg_without_engine_is_noop_witness:
  "engine unloaded_ui = None
   \<and> sendMsg unloaded_ui ''m1'' ''t1'' (boot store_hi Map.empty\<lparr>ui := unloaded_ui\<rparr>)
       = boot store_hi Map.empty\<lparr>ui := unloaded_ui\<rparr>
   \<and> msgInput (ui (step (boot store_hi Map.empty\<lparr>ui := unloaded_ui\<rparr>) (SubmitForm ''m1'' ''t1'')))
       = ''hi''"
  using sendMsg_without_engine_is_noop
          [of unloaded_ui "''m1''" "''t1''" "boot store_hi Map.empty\<lparr>ui := unloaded_ui\<rparr>"]
  by (simp add: unloaded_ui_def)

section \<open>The load guard\<close>

lemma guard_inv_boot: "guard_inv (boot ls ss)"
  by (simp add: guard_inv_def boot_def)

lemma guard_inv_step:
  assumes "guard_inv w" and "calm w [ev]"
  shows "guard_inv (step w ev)"
proof (cases ev)
  case ClickStart
  with assms show ?thesis
    by (auto simp: guard_inv_def prepareEngine_begin_def Let_def)
next
  case (LoadProgress report)
  with assms show ?thesis by (simp add: guard_inv_def setEngineLoadingProgress_def)
next
  case (LoadSettled outcome)
  with assms show ?thesis
    by (cases "pendingLoads w") (simp_all add: guard_inv_def prepareEngine_resume_def)
next
  case (TypeInput s)
  with assms show ?thesis by (simp add: guard_inv_def setMsgInput_def)
next
  case (SubmitForm newId now)
  with assms show ?thesis by (simp add: guard_inv_def)
next
  case (CompletionSettled outcome newId now)
  with assms show ?thesis by (simp add: guard_inv_def)
next
  case ClickDelete
  with assms show ?thesis by (simp add: guard_inv_def clearStorage_begin_def)
next
  case (PurgeSettled outcome)
  with assms show ?thesis
    by (cases outcome) (auto simp: guard_inv_def Let_def)
qed

lemma guard_inv_run: "guard_inv w \<Longrightarrow> calm w evs \<Longrightarrow> guard_inv (run w evs)"
proof (induction evs arbitrary: w)
  case Nil
  then show ?case by (simp add: run_def)
next
  case (Cons ev evs)
  from Cons.prems have "guard_inv (step w ev)"
    by (intro guard_inv_step) simp_all
  moreover from Cons.prems have "calm (step w ev) evs" by simp
  ultimately have "guard_inv (run (step w ev) evs)" by (rule Cons.IH)
  then show ?case by (simp add: run_def)
qed

lemma guarded_begin_noop:
  "guard_inv w \<Longrightarrow> pendingLoads w \<noteq> [] \<Longrightarrow> prepareEngine_begin env w = w"
  by (simp add: guard_inv_def prepareEngine_begin_def)

text \<open>
  Claim C3, as the code has it. In every execution from a page load in which no reset
  completes while a load is in flight, at most one load is in flight at any time, and a
  call of \<^verbatim>\<open>prepareEngine\<close> made while one is in flight changes nothing: the world,
  and with it the list of calls that reached the runtime, is as before.
\<close>

theorem second_start_is_noop:
  "calm (boot ls ss) evs \<Longrightarrow>
     (let w = run (boot ls ss) evs
      in length (pendingLoads w) \<le> 1
         \<and> (pendingLoads w \<noteq> [] \<longrightarrow>
              step w ClickStart = w
              \<and> prepareEngine_begin env w = w
              \<and> calls (step w ClickStart) = calls w))"
proof -
  assume "calm (boot ls ss) evs"
  with guard_inv_boot have inv: "guard_inv (run (boot ls ss) evs)"
    by (rule guard_inv_run)
  then have "length (pendingLoads (run (boot ls ss) evs)) \<le> 1"
    by (simp add: guard_inv_def)
  with inv show ?thesis
    by (simp add: Let_def guarded_begin_noop)
qed

theorem second_start_is_noop_witness:
  "calm (boot store_hi Map.empty) [ClickStart, LoadProgress ''Fetching param cache[0/24]'']
   \<and> (let w = run (boot store_hi Map.empty)
                 [ClickStart, LoadProgress ''Fetching param cache[0/24]'']
      in length (pendingLoads w) = 1
         \<and> step w ClickStart = w
         \<and> prepareEngine_begin unloaded_ui w = w
         \<and> calls (step w ClickStart) = [CreateMLCEngine modelId])"
proof -
  have c: "calm (boot store_hi Map.empty) [ClickStart, LoadProgress ''Fetching param cache[0/24]'']"
    by simp
  have p: "length (pendingLoads (run (boot store_hi Map.empty)
              [ClickStart, LoadProgress ''Fetching param cache[0/24]''])) = 1"
    by (simp add: phases setters)
  have q: "calls (run (boot store_hi Map.empty)
              [ClickStart, LoadProgress ''Fetching param cache[0/24]'']) = [CreateMLCEngine modelId]"
    by (simp add: phases setters)
  from second_start_is_noop [OF c, of unloaded_ui] p q show ?thesis
    using c by (auto simp: Let_def)
qed

text \<open>
  Claim C3 as stated fails when a reset completes while a load is in flight. The
  events of \<open>double_delete\<close> followed by a click on Start are all possible on the
  rendered page; after \<open>double_delete\<close> one load is in flight, and the click on Start
  is not a no-op: a second load request reaches the runtime and two loads are in flight.
\<close>

theorem second_start_after_reset_counterexample:
  "feasible (boot Map.empty Map.empty) (double_delete @ [ClickStart])
   \<and> length (pendingLoads (run (boot Map.empty Map.empty) double_delete)) = 1
   \<and> step (run (boot Map.empty Map.empty) double_delete) ClickStart
       \<noteq> run (boot Map.empty Map.empty) double_delete
   \<and> calls (step (run (boot Map.empty Map.empty) double_delete) ClickStart)
       = calls (run (boot Map.empty Map.empty) double_delete) @ [CreateMLCEngine modelId]
   \<and> length (pendingLoads (step (run (boot Map.empty Map.empty) double_delete) ClickStart)) = 2"
  by (simp add: double_delete_def phases setters)

text \<open>
  Claim C4. However the load settles, the continuation of \<^verbatim>\<open>prepareEngine\<close> leaves
  the guard unset, and the next call of \<^verbatim>\<open>prepareEngine\<close> is not blocked: it sets
  the guard and sends a load request to the runtime.
\<close>

theorem guard_cleared_on_every_exit:
  "sessionStorage (prepareEngine_resume env outcome w) loadEngineProgressKey = None
   \<and> sessionStorage (step (w\<lparr>pendingLoads := env # rest\<rparr>) (LoadSettled outcome))
        loadEngineProgressKey = None
   \<and> (let w' = prepareEngine_resume env outcome w
      in prepareEngine_begin env' w' =
           w'\<lparr>sessionStorage := (sessionStorage w')(loadEngineProgressKey \<mapsto> ''true''),
              calls := calls w' @ [CreateMLCEngine modelId],
              pendingLoads := pendingLoads w' @ [env']\<rparr>)"
  by (simp add: prepareEngine_resume_def prepareEngine_begin_def Let_def)

theorem guard_cleared_on_every_exit_witness:
  "sessionStorage (step (boot store_hi Map.empty) ClickStart) loadEngineProgressKey = Some ''true''
   \<and> sessionStorage
        (run (boot store_hi Map.empty) [ClickStart, LoadSettled (LoadError ''no WebGPU'')])
        loadEngineProgressKey = None
   \<and> sessionStorage
        (run (boot store_hi Map.empty) [ClickStart, LoadSettled (Loaded (MLCEngine 1))])
        loadEngineProgressKey = None
   \<and> calls (run (boot store_hi Map.empty)
        [ClickStart, LoadSettled (LoadError ''no WebGPU''), ClickStart])
       = [CreateMLCEngine modelId, CreateMLCEngine modelId]"
  using guard_cleared_on_every_exit
          [of "ui (boot store_hi Map.empty)" "LoadError ''no WebGPU''"
              "step (boot store_hi Map.empty) ClickStart" "[]" "ui (boot store_hi Map.empty)"]
  by (simp add: phases setters store_hi_def)

section \<open>Replay after a load\<close>

text \<open>
  The closure that runs the replay is the one of the render in which Start was clicked.
  Its \<^verbatim>\<open>engine\<close> is unset, so the \<^verbatim>\<open>processMsg\<close> it calls returns at line 98:
  whatever the persisted log is, the replay sends no request.
\<close>

lemma replay_from_start_closure:
  "engine env = None \<Longrightarrow> loadMessages w = Inr ms \<Longrightarrow>
     replay env w = setMessages (\<lambda>_. ms) w"
  by (simp add: replay_def loadMessages_def processMsg_begin_def Let_def)

text \<open>
  Claim C1, evaluated on the code. The persisted log is one user message; Start is
  clicked and the load succeeds. The events are possible on the rendered page. Afterwards
  the engine is stored and the chat screen is shown, but the published log and the store
  hold the user message alone: no completion request was sent, none is pending, and the
  busy flag is off, so no assistant entry follows.
\<close>

theorem replay_of_user_turn_adds_no_reply:
  "feasible (boot store_hi Map.empty) [ClickStart, LoadSettled (Loaded (MLCEngine 1))]
   \<and> messages (ui (run (boot store_hi Map.empty)
        [ClickStart, LoadSettled (Loaded (MLCEngine 1))])) = [msg_hi]
   \<and> localStorage (run (boot store_hi Map.empty)
        [ClickStart, LoadSettled (Loaded (MLCEngine 1))]) messagesRepoKey
       = Some (Serialized [msg_hi])
   \<and> calls (run (boot store_hi Map.empty)
        [ClickStart, LoadSettled (Loaded (MLCEngine 1))]) = [CreateMLCEngine modelId]
   \<and> pendingCompletions (run (boot store_hi Map.empty)
        [ClickStart, LoadSettled (Loaded (MLCEngine 1))]) = 0
   \<and> \<not> processingMsg (ui (run (boot store_hi Map.empty)
        [ClickStart, LoadSettled (Loaded (MLCEngine 1))]))
   \<and> engine (ui (run (boot store_hi Map.empty)
        [ClickStart, LoadSettled (Loaded (MLCEngine 1))])) = Some (MLCEngine 1)
   \<and> render (run (boot store_hi Map.empty)
        [ClickStart, LoadSettled (Loaded (MLCEngine 1))]) = Chat"
  by (simp add: phases setters store_hi_def msg_hi_def)

text \<open>
  Claim C2, as the code has it. The replay (read the persisted log, publish it, hand a
  log that ends in a user turn to the turn processor of the same closure) runs once
  when the load of a call of \<^verbatim>\<open>prepareEngine\<close> settles, after a failed load as well
  as after a successful one, on a world in which the guard is already cleared; after a
  success the engine handle is stored by then, after a failure it is as before. Either
  way the published log becomes the persisted log when that can be read. A call of
  \<^verbatim>\<open>prepareEngine\<close> that the guard blocks runs nothing.
\<close>

theorem replay_runs_after_every_settled_load:
  "prepareEngine_resume env outcome w = replay env (load_settled outcome w)
   \<and> step (w\<lparr>pendingLoads := env # rest\<rparr>) (LoadSettled outcome)
       = replay env (load_settled outcome (w\<lparr>pendingLoads := rest\<rparr>))
   \<and> sessionStorage (load_settled outcome w) loadEngineProgressKey = None
   \<and> engine (ui (load_settled (Loaded e) w)) = Some e
   \<and> engine (ui (load_settled (LoadError err) w)) = engine (ui w)
   \<and> (loadMessages w = Inr ms \<longrightarrow> messages (ui (prepareEngine_resume env outcome w)) = ms)
   \<and> (sessionStorage w loadEngineProgressKey = Some ''true'' \<longrightarrow> prepareEngine_begin env w = w)"
proof -
  have "loadMessages w = Inr ms \<longrightarrow> messages (ui (prepareEngine_resume env outcome w)) = ms"
    by (simp add: prepareEngine_resume_def messages_replay loadMessages_def)
  moreover have "engine (ui (load_settled (Loaded e) w)) = Some e"
    and "engine (ui (load_settled (LoadError err) w)) = engine (ui w)"
    by (simp_all add: load_settled_def setters)
  ultimately show ?thesis
    by (simp add: prepareEngine_resume_def prepareEngine_begin_def)
qed

theorem replay_runs_after_every_settled_load_witness:
  "loadMessages (step (boot store_hi Map.empty) ClickStart) = Inr [msg_hi]
   \<and> messages (ui (prepareEngine_resume unloaded_ui (LoadError ''no WebGPU'')
        (step (boot store_hi Map.empty) ClickStart))) = [msg_hi]
   \<and> sessionStorage (step (boot store_hi Map.empty) ClickStart) loadEngineProgressKey
       = Some ''true''
   \<and> prepareEngine_begin unloaded_ui (step (boot store_hi Map.empty) ClickStart)
       = step (boot store_hi Map.empty) ClickStart"
proof -
  have l: "loadMessages (step (boot store_hi Map.empty) ClickStart) = Inr [msg_hi]"
    by (simp add: loadMessages_def phases store_hi_def)
  have g: "sessionStorage (step (boot store_hi Map.empty) ClickStart) loadEngineProgressKey
             = Some ''true''"
    by (simp add: phases)
  from replay_runs_after_every_settled_load
         [of unloaded_ui "LoadError ''no WebGPU''" "step (boot store_hi Map.empty) ClickStart"
             "[]" "MLCEngine 1" "''no WebGPU''" "[msg_hi]"]
  show ?thesis using l g by blast
qed

text \<open>
  Claim C2 as stated fails for a failed load: with one user message persisted and
  nothing published, Start is clicked and the load fails. The error is logged and the
  engine stays unset, and the replay has run all the same: the persisted log is now the
  published log.
\<close>

theorem replay_after_failed_load_counterexample:
  "feasible (boot store_hi Map.empty) [ClickStart, LoadSettled (LoadError ''no WebGPU'')]
   \<and> messages (ui (boot store_hi Map.empty)) = []
   \<and> messages (ui (run (boot store_hi Map.empty)
        [ClickStart, LoadSettled (LoadError ''no WebGPU'')])) = [msg_hi]
   \<and> engine (ui (run (boot store_hi Map.empty)
        [ClickStart, LoadSettled (LoadError ''no WebGPU'')])) = None
   \<and> console (run (boot store_hi Map.empty)
        [ClickStart, LoadSettled (LoadError ''no WebGPU'')])
       = [(''unable to fully load the model:'', ''no WebGPU'')]"
  by (simp add: phases setters store_hi_def)

section \<open>Reset\<close>

text \<open>
  Claim C8. From any world, once the purge it awaits resolves, \<^verbatim>\<open>clearStorage\<close>
  returns, and in the world it returns: nothing is persisted under the storage key and
  reading the store gives the empty log, the engine handle is unset, the guard and the
  progress string are cleared, the published log and the input are empty, the busy flag
  is off and the first screen (prepare the model) is shown; the other storage keys, the
  console and the suspended calls are as before, and one purge call has reached the
  runtime. It is the world the page is in after a click on Delete and the settling of
  its purge. A second reset returns as well and changes nothing but the record of one
  more purge call. (When the purge rejects, \<^verbatim>\<open>clearStorage\<close> rejects with the
  same error and does not return.)
\<close>

theorem reset_clears_everything:
  "(\<exists>w'. clearStorage Purged w = Inr w'
      \<and> localStorage w' messagesRepoKey = None
      \<and> loadMessages w' = Inr []
      \<and> engine (ui w') = None
      \<and> sessionStorage w' loadEngineProgressKey = None
      \<and> engineLoadingProgress (ui w') = []
      \<and> messages (ui w') = []
      \<and> msgInput (ui w') = []
      \<and> \<not> processingMsg (ui w')
      \<and> render w' = PrepareModel
      \<and> localStorage w' = (localStorage w)(messagesRepoKey := None)
      \<and> sessionStorage w' = (sessionStorage w)(loadEngineProgressKey := None)
      \<and> console w' = console w
      \<and> calls w' = calls w @ [DeleteModelAllInfoInCache modelId]
      \<and> pendingLoads w' = pendingLoads w
      \<and> pendingCompletions w' = pendingCompletions w
      \<and> pendingPurges w' = pendingPurges w
      \<and> step (step w ClickDelete) (PurgeSettled Purged) = w'
      \<and> clearStorage Purged w' =
          Inr (w'\<lparr>calls := calls w' @ [DeleteModelAllInfoInCache modelId]\<rparr>))
   \<and> clearStorage (PurgeError err) w = Inl err"
  by (simp add: clearStorage_def clearStorage_begin_def clearStorage_resume_def setters Let_def
        loadMessages_def render_def)

theorem reset_clears_everything_witness:
  "clearStorage Purged ready_world = Inr reset_world
   \<and> localStorage reset_world messagesRepoKey = None
   \<and> loadMessages reset_world = Inr []
   \<and> engine (ui reset_world) = None
   \<and> messages (ui reset_world) = []
   \<and> render reset_world = PrepareModel
   \<and> step (step ready_world ClickDelete) (PurgeSettled Purged) = reset_world
   \<and> clearStorage Purged reset_world =
       Inr (reset_world\<lparr>calls := calls reset_world @ [DeleteModelAllInfoInCache modelId]\<rparr>)"
proof -
  have r: "clearStorage Purged ready_world = Inr reset_world"
    by (simp add: clearStorage_def clearStorage_begin_def clearStorage_resume_def setters Let_def
          ready_world_def ready_ui_def reset_world_def)
  from reset_clears_everything [of ready_world "[]"] obtain w' where
    w': "clearStorage Purged ready_world = Inr w'"
      "localStorage w' messagesRepoKey = None"
      "loadMessages w' = Inr []"
      "engine (ui w') = None"
      "messages (ui w') = []"
      "render w' = PrepareModel"
      "step (step ready_world ClickDelete) (PurgeSettled Purged) = w'"
      "clearStorage Purged w' =
         Inr (w'\<lparr>calls := calls w' @ [DeleteModelAllInfoInCache modelId]\<rparr>)"
    by blast
  from w'(1) r have "w' = reset_world" by simp
  with w' r show ?thesis by simp
qed

end
